theory Spec2Isabelle
  imports Complex_Main "HOL-Library.Word"
begin

section \<open>JavaScript strings\<close>

text \<open>
  A JavaScript string is a sequence of UTF-16 code units: \<open>length\<close>, \<open>substring\<close>,
  \<open>split\<close> and \<open>trim\<close> all count and compare code units. A literal of the source is
  written \<open>lit ''...''\<close>; the two emoji of the source are given by their surrogate pairs.
\<close>

type_synonym jsstring = "16 word list"

definition lit :: "string \<Rightarrow> jsstring" where
  "lit s = map of_char s"

text \<open>\<open>String(n)\<close> for a non-negative integer \<open>n\<close>: its decimal digits.\<close>

fun numberToString :: "nat \<Rightarrow> jsstring" where
  "numberToString n =
     (if n < 10 then [of_nat (48 + n)]
      else numberToString (n div 10) @ [of_nat (48 + n mod 10)])"

fun startsWith :: "jsstring \<Rightarrow> jsstring \<Rightarrow> bool" where
  "startsWith s [] = True"
| "startsWith [] (p # ps) = False"
| "startsWith (c # cs) (p # ps) = (c = p \<and> startsWith cs ps)"

fun stringIncludes :: "jsstring \<Rightarrow> jsstring \<Rightarrow> bool" where
  "stringIncludes [] pat = startsWith [] pat"
| "stringIncludes (c # cs) pat = (startsWith (c # cs) pat \<or> stringIncludes cs pat)"

definition endsWith :: "jsstring \<Rightarrow> jsstring \<Rightarrow> bool" where
  "endsWith s pat = startsWith (rev s) (rev pat)"

text \<open>
  \<open>String.prototype.trim\<close> removes WhiteSpace and LineTerminator code units from both ends.
\<close>

definition isWhiteSpace :: "16 word \<Rightarrow> bool" where
  "isWhiteSpace c =
     (c \<in> set [0x09, 0x0A, 0x0B, 0x0C, 0x0D, 0x20, 0xA0, 0x1680, 0x2028, 0x2029,
                0x202F, 0x205F, 0x3000, 0xFEFF]
      \<or> (0x2000 \<le> c \<and> c \<le> 0x200A))"

definition trim :: "jsstring \<Rightarrow> jsstring" where
  "trim s = rev (dropWhile isWhiteSpace (rev (dropWhile isWhiteSpace s)))"

text \<open>\<open>s.substring(0, n)\<close> and \<open>xs.slice(i, j)\<close> for \<open>i \<le> j\<close>; both clamp to the length.\<close>

definition substring0 :: "jsstring \<Rightarrow> nat \<Rightarrow> jsstring" where
  "substring0 s n = take n s"

definition slice :: "'a list \<Rightarrow> nat \<Rightarrow> nat \<Rightarrow> 'a list" where
  "slice xs i j = take (j - i) (drop i xs)"

text \<open>
  \<open>s.replace(pat, rep)\<close> with a string pattern replaces the first occurrence only.
  The replacement strings of the source contain no \<open>$\<close>, so none is interpreted.
\<close>

fun replaceFirst :: "jsstring \<Rightarrow> jsstring \<Rightarrow> jsstring \<Rightarrow> jsstring" where
  "replaceFirst pat rep [] = (if pat = [] then rep else [])"
| "replaceFirst pat rep (c # cs) =
     (if startsWith (c # cs) pat then rep @ drop (length pat) (c # cs)
      else c # replaceFirst pat rep cs)"

text \<open>\<open>s.replace(/_/g, ' ')\<close>: every underscore becomes a space.\<close>

definition replaceUnderscores :: "jsstring \<Rightarrow> jsstring" where
  "replaceUnderscores s = map (\<lambda>c. if c = 0x5F then 0x20 else c) s"

text \<open>
  \<open>toLowerCase\<close> on the letters A to Z. Code units outside ASCII are left as they are,
  so the function agrees with JavaScript on ASCII file names.
\<close>

definition toLowerCase :: "jsstring \<Rightarrow> jsstring" where
  "toLowerCase s = map (\<lambda>c. if 0x41 \<le> c \<and> c \<le> 0x5A then c + 0x20 else c) s"

text \<open>
  \<open>s.split(sep)\<close> for a non-empty separator string: the pieces between the
  non-overlapping occurrences of \<open>sep\<close>, found from left to right. The accumulator holds
  the current piece reversed.
\<close>

function splitFrom :: "jsstring \<Rightarrow> jsstring \<Rightarrow> jsstring \<Rightarrow> jsstring list" where
  "splitFrom sep acc [] = [rev acc]"
| "splitFrom sep acc (c # cs) =
     (if sep \<noteq> [] \<and> startsWith (c # cs) sep
      then rev acc # splitFrom sep [] (drop (length sep - 1) cs)
      else splitFrom sep (c # acc) cs)"
  by pat_completeness auto
termination
  by (relation "measure (\<lambda>(sep, acc, s). length s)") auto

definition splitOn :: "jsstring \<Rightarrow> jsstring \<Rightarrow> jsstring list" where
  "splitOn sep s = splitFrom sep [] s"

text \<open>
  \<open>s.split(/[.!?]+/)\<close>: the separators are the maximal runs of the three punctuation
  marks; a run at the start or the end leaves an empty piece there.
\<close>

definition isSentenceEnd :: "16 word \<Rightarrow> bool" where
  "isSentenceEnd c = (c = 0x2E \<or> c = 0x21 \<or> c = 0x3F)"

function splitSentencesFrom :: "jsstring \<Rightarrow> jsstring \<Rightarrow> jsstring list" where
  "splitSentencesFrom acc [] = [rev acc]"
| "splitSentencesFrom acc (c # cs) =
     (if isSentenceEnd c
      then rev acc # splitSentencesFrom [] (dropWhile isSentenceEnd cs)
      else splitSentencesFrom (c # acc) cs)"
  by pat_completeness auto
termination
  by (relation "measure (\<lambda>(acc, s). length s)") (auto simp: length_dropWhile_le less_Suc_eq_le)

definition splitSentences :: "jsstring \<Rightarrow> jsstring list" where
  "splitSentences s = splitSentencesFrom [] s"

text \<open>
  \<open>doc.match(/(\d+): ([^\]]+)\]/)\<close>, second group. At a start position the match needs
  a run of digits, then a colon and a space, then a non-empty run of code units other
  than \<open>]\<close>, then \<open>]\<close>. Both runs are greedy, and a shorter run cannot match where the
  longest does not: after a shorter run of digits comes a digit, not the colon, and after
  a shorter run of non-brackets comes a non-bracket, not \<open>]\<close>. So only the maximal runs
  are tried. The leftmost start position that matches wins.
\<close>

definition isDigit :: "16 word \<Rightarrow> bool" where
  "isDigit c = (0x30 \<le> c \<and> c \<le> 0x39)"

definition isNotBracket :: "16 word \<Rightarrow> bool" where
  "isNotBracket c = (c \<noteq> 0x5D)"

definition matchTitleAt :: "jsstring \<Rightarrow> jsstring option" where
  "matchTitleAt s =
     (let r = dropWhile isDigit s in
      if takeWhile isDigit s = [] then None
      else if \<not> startsWith r [0x3A, 0x20] then None
      else (let g = takeWhile isNotBracket (drop 2 r);
                r' = dropWhile isNotBracket (drop 2 r)
            in if g = [] \<or> r' = [] then None else Some g))"

fun matchTitle :: "jsstring \<Rightarrow> jsstring option" where
  "matchTitle [] = None"
| "matchTitle (c # cs) =
     (case matchTitleAt (c # cs) of Some g \<Rightarrow> Some g | None \<Rightarrow> matchTitle cs)"

text \<open>\<open>xs.indexOf(x)\<close>: the first position of \<open>x\<close>, or \<open>None\<close> for \<open>-1\<close>.\<close>

fun indexOf :: "'a list \<Rightarrow> 'a \<Rightarrow> nat option" where
  "indexOf [] x = None"
| "indexOf (y # ys) x =
     (if y = x then Some 0 else map_option Suc (indexOf ys x))"

text \<open>\<open>xs.join(sep)\<close>.\<close>

fun join :: "jsstring \<Rightarrow> jsstring list \<Rightarrow> jsstring" where
  "join sep [] = []"
| "join sep [x] = x"
| "join sep (x # y # ys) = x @ sep @ join sep (y # ys)"

section \<open>Errors, the remote services and the trace of effects\<close>

text \<open>
  A thrown JavaScript error, with its \<open>message\<close> and the HTTP status of
  \<open>error.response?.status\<close> when it has one.
\<close>

datatype error = Error (message: jsstring) (status: "nat option")

text \<open>
  An embedding is a list of floating-point numbers. Each finite double is a rational
  number, and the code only stores and compares them, so they are modelled as \<open>rat\<close>.
  The value returned for \<open>response.data.embedding.values\<close> may be \<open>undefined\<close>.
\<close>

type_synonym embedding = "rat list"

datatype embed_response =
    PostRejected error
  | NoEmbeddingField
  | EmbeddingValues "embedding option"

text \<open>
  A metadata value handed to \<open>cleanMetadata\<close>. \<open>MOther s\<close> is a value of any other
  type, with \<open>s\<close> its \<open>String(value)\<close>.
\<close>

datatype mvalue =
    MUndefined | MNull | MString jsstring | MNumber nat | MBoolean bool | MOther jsstring

type_synonym metadata = "(string \<times> mvalue) list"

record add_request =
  ids :: "jsstring list"
  embeddings :: "embedding option list"
  documents :: "jsstring list"
  metadatas :: "metadata list"

text \<open>
  The row \<open>[0]\<close> of a query result: \<open>documents[0]\<close> may be missing; a metadata entry may
  be \<open>null\<close>, and its \<open>title\<close> may be absent.
\<close>

record query_result =
  documents0 :: "jsstring list option"
  metadatas0 :: "jsstring option option list"
  distances0 :: "rat list"

datatype gen_response =
    GenRejected error
  | GenResolved "jsstring option"

text \<open>
  Every effect of the program is an event appended to a trace: the remote calls with what
  they send, the pacing delays in milliseconds, and the clock reads. The trace is the
  state that the functions below pass along.
\<close>

datatype event =
    EmbedPost jsstring
  | GeneratePost jsstring jsstring
  | CollectionAdd add_request
  | CollectionQuery "embedding option"
  | Sleep nat
  | ClockRead

text \<open>
  The environment: the configured credential and the behaviour of everything outside
  the program. A remote service answers as a function of the whole trace up to and
  including the request, so its answers may change from call to call in any way.
  \<open>read_pdf\<close> is \<open>fs.readFileSync\<close> followed by \<open>pdfParse\<close>; \<open>split_text\<close> is the text
  splitter of the langchain library, giving the chunk texts in order.
\<close>

record env =
  GEMINI_API_KEY :: "jsstring option"
  embed_post :: "event list \<Rightarrow> embed_response"
  collection_add :: "event list \<Rightarrow> error option"
  collection_query :: "event list \<Rightarrow> error + query_result"
  generate_post :: "event list \<Rightarrow> gen_response"
  clock :: "event list \<Rightarrow> jsstring"
  read_pdf :: "jsstring \<Rightarrow> error + jsstring"
  split_text :: "jsstring \<Rightarrow> jsstring list"

text \<open>
  \<open>!GEMINI_API_KEY || GEMINI_API_KEY.includes('your-actual-gemini-api-key-here')\<close>
\<close>

definition keyMissing :: "env \<Rightarrow> bool" where
  "keyMissing e =
     (case GEMINI_API_KEY e of
        None \<Rightarrow> True
      | Some k \<Rightarrow> k = [] \<or> stringIncludes k (lit ''your-actual-gemini-api-key-here''))"

section \<open>preprocess.js\<close>

definition CHUNK_BATCH_SIZE :: nat where
  "CHUNK_BATCH_SIZE = 10"

definition MAX_RETRIES :: nat where
  "MAX_RETRIES = 3"

text \<open>\<open>cleanMetadata\<close>\<close>

fun cleanMetadata :: "metadata \<Rightarrow> metadata" where
  "cleanMetadata [] = []"
| "cleanMetadata ((key, v) # kvs) =
     (case v of
        MNull \<Rightarrow> cleanMetadata kvs
      | MUndefined \<Rightarrow> cleanMetadata kvs
      | MOther s \<Rightarrow> (key, MString s) # cleanMetadata kvs
      | _ \<Rightarrow> (key, v) # cleanMetadata kvs)"

text \<open>
  \<open>generateEmbedding(text, retries = 0)\<close>. \<open>embedTry\<close> is the body of its \<open>try\<close>: the
  credential check, the post, and the read of \<open>response.data.embedding.values\<close>, which
  throws a TypeError when the response has no \<open>embedding\<close>.
\<close>

definition keyRequiredError :: error where
  "keyRequiredError = Error (lit ''Valid GEMINI_API_KEY is required for manual embeddings'') None"

definition valuesTypeError :: error where
  "valuesTypeError =
     Error (lit ''Cannot read properties of undefined (reading 'values')'') None"

definition embedTry :: "env \<Rightarrow> error \<Rightarrow> jsstring \<Rightarrow> event list
    \<Rightarrow> (error + embedding option) \<times> event list" where
  "embedTry e keyError text t =
     (if keyMissing e then (Inl keyError, t)
      else (let t1 = t @ [EmbedPost text] in
            case embed_post e t1 of
              PostRejected err \<Rightarrow> (Inl err, t1)
            | NoEmbeddingField \<Rightarrow> (Inl valuesTypeError, t1)
            | EmbeddingValues v \<Rightarrow> (Inr v, t1)))"

function generateEmbedding :: "env \<Rightarrow> jsstring \<Rightarrow> nat \<Rightarrow> event list
    \<Rightarrow> (error + embedding option) \<times> event list" where
  "generateEmbedding e text retries t =
     (case embedTry e keyRequiredError text t of
        (Inr v, t1) \<Rightarrow> (Inr v, t1)
      | (Inl err, t1) \<Rightarrow>
          if retries < MAX_RETRIES
          then generateEmbedding e text (retries + 1) (t1 @ [Sleep (1000 * (retries + 1))])
          else (Inl err, t1))"
  by pat_completeness auto
termination
  by (relation "measure (\<lambda>(e, text, retries, t). MAX_RETRIES - retries)") auto

text \<open>
  \<open>processChunkBatch\<close>, in the order of the source: the metadata of every chunk (each
  reads the clock), the embeddings one after the other with a second between two calls,
  then the write with its retries.
\<close>

definition titleOf :: "jsstring \<Rightarrow> jsstring" where
  "titleOf fileName = replaceUnderscores (replaceFirst (lit ''.PDF'') [] fileName)"

definition chunkId :: "jsstring \<Rightarrow> nat \<Rightarrow> jsstring" where
  "chunkId fileName k = fileName @ lit ''_chunk_'' @ numberToString k"

fun buildMetadatas :: "env \<Rightarrow> jsstring \<Rightarrow> nat \<Rightarrow> nat \<Rightarrow> nat \<Rightarrow> jsstring list \<Rightarrow> event list
    \<Rightarrow> metadata list \<times> event list" where
  "buildMetadatas e fileName startIndex n idx [] t = ([], t)"
| "buildMetadatas e fileName startIndex n idx (doc # docs) t =
     (let t1 = t @ [ClockRead];
          m = cleanMetadata
                [(''filename'', MString fileName),
                 (''source'', MString fileName),
                 (''title'', MString (titleOf fileName)),
                 (''chunk_index'', MNumber (startIndex + idx)),
                 (''total_chunks'', MNumber n),
                 (''processed_at'', MString (clock e t1))];
          (ms, t2) = buildMetadatas e fileName startIndex n (idx + 1) docs t1
      in (m # ms, t2))"

fun embedLoop :: "env \<Rightarrow> jsstring list \<Rightarrow> event list
    \<Rightarrow> (error + embedding option list) \<times> event list" where
  "embedLoop e [] t = (Inr [], t)"
| "embedLoop e (doc # rest) t =
     (case generateEmbedding e doc 0 t of
        (Inl err, t1) \<Rightarrow> (Inl err, t1)
      | (Inr v, t1) \<Rightarrow>
          (case embedLoop e rest (if rest \<noteq> [] then t1 @ [Sleep 1000] else t1) of
             (Inl err, t2) \<Rightarrow> (Inl err, t2)
           | (Inr vs, t2) \<Rightarrow> (Inr (v # vs), t2)))"

text \<open>
  The \<open>while (retries < MAX_RETRIES)\<close> loop around \<open>collection.add\<close>. Leaving the loop
  by its condition would fall out of the function, which then returns \<open>undefined\<close>.
\<close>

datatype add_outcome = Added | AddThrew error | LoopLeft

function addLoop :: "env \<Rightarrow> add_request \<Rightarrow> nat \<Rightarrow> event list \<Rightarrow> add_outcome \<times> event list" where
  "addLoop e req retries t =
     (if retries < MAX_RETRIES
      then (let t1 = t @ [CollectionAdd req] in
            case collection_add e t1 of
              None \<Rightarrow> (Added, t1)
            | Some err \<Rightarrow>
                if retries + 1 \<ge> MAX_RETRIES then (AddThrew err, t1)
                else addLoop e req (retries + 1) (t1 @ [Sleep (1000 * (retries + 1))]))
      else (LoopLeft, t))"
  by pat_completeness auto
termination
  by (relation "measure (\<lambda>(e, req, retries, t). MAX_RETRIES - retries)") auto

text \<open>
  The result of \<open>processChunkBatch\<close> is a number, or \<open>None\<close> for \<open>undefined\<close>. A chunk
  of the splitter is given by its \<open>pageContent\<close>, the only field the function reads.
\<close>

definition processChunkBatch :: "env \<Rightarrow> jsstring list \<Rightarrow> jsstring \<Rightarrow> nat \<Rightarrow> event list
    \<Rightarrow> nat option \<times> event list" where
  "processChunkBatch e docs fileName startIndex t =
     (let documents' = docs;
          ids' = map (\<lambda>idx. chunkId fileName (startIndex + idx)) [0..<length docs];
          (metadatas', t1) = buildMetadatas e fileName startIndex (length docs) 0 docs t
      in case embedLoop e documents' t1 of
           (Inl err, t2) \<Rightarrow> (Some 0, t2)
         | (Inr embeddings', t2) \<Rightarrow>
             (case addLoop e \<lparr>ids = ids', embeddings = embeddings',
                               documents = documents', metadatas = metadatas'\<rparr> 0 t2 of
                (Added, t3) \<Rightarrow> (Some (length documents'), t3)
              | (AddThrew err, t3) \<Rightarrow> (Some 0, t3)
              | (LoopLeft, t3) \<Rightarrow> (None, t3)))"

text \<open>
  The chunk loop of \<open>processPDF\<close>. \<open>totalAdded\<close> is a JavaScript number: \<open>None\<close> is NaN,
  the sum of a number and \<open>undefined\<close>.
\<close>

definition addNumbers :: "nat option \<Rightarrow> nat option \<Rightarrow> nat option" where
  "addNumbers a b = (case (a, b) of (Some x, Some y) \<Rightarrow> Some (x + y) | _ \<Rightarrow> None)"

function chunkLoop :: "env \<Rightarrow> jsstring list \<Rightarrow> jsstring \<Rightarrow> nat \<Rightarrow> nat option \<Rightarrow> event list
    \<Rightarrow> nat option \<times> event list" where
  "chunkLoop e docs fileName i totalAdded t =
     (if i < length docs
      then (let chunkBatch = slice docs i (i + CHUNK_BATCH_SIZE);
                (batchAdded, t1) = processChunkBatch e chunkBatch fileName i t;
                t2 = (if i + CHUNK_BATCH_SIZE < length docs then t1 @ [Sleep 100] else t1)
            in chunkLoop e docs fileName (i + CHUNK_BATCH_SIZE)
                 (addNumbers totalAdded batchAdded) t2)
      else (totalAdded, t))"
  by pat_completeness auto
termination
  by (relation "measure (\<lambda>(e, docs, fileName, i, totalAdded, t). length docs - i)")
     (auto simp: CHUNK_BATCH_SIZE_def)

text \<open>
  \<open>processPDF(filePath, fileName, index, total)\<close>; \<open>index\<close> and \<open>total\<close> are only logged.
  The first field of either result is its \<open>fileName\<close>; a failure has
  \<open>chunksProcessed: 0\<close>.
\<close>

datatype pdf_result =
    PdfSuccess jsstring (chunksProcessed: "nat option") (totalChunks: nat)
  | PdfFailure jsstring (errorMessage: jsstring)

definition processPDF :: "env \<Rightarrow> jsstring \<Rightarrow> jsstring \<Rightarrow> event list
    \<Rightarrow> pdf_result \<times> event list" where
  "processPDF e filePath fileName t =
     (case read_pdf e filePath of
        Inl err \<Rightarrow> (PdfFailure fileName (message err), t)
      | Inr text \<Rightarrow>
          if text = [] \<or> length (trim text) < 100
          then (PdfFailure fileName (lit ''No significant text found in PDF''), t)
          else (let docs = split_text e text in
                if length docs = 0
                then (PdfFailure fileName (lit ''No chunks created from PDF''), t)
                else (let (totalAdded, t1) = chunkLoop e docs fileName 0 (Some 0) t
                      in (PdfSuccess fileName totalAdded (length docs), t1))))"

text \<open>The discovery filter of \<open>processPDFs\<close>: \<open>f.toLowerCase().endsWith('.pdf')\<close>.\<close>

definition isPdfName :: "jsstring \<Rightarrow> bool" where
  "isPdfName f = endsWith (toLowerCase f) (lit ''.pdf'')"

section \<open>index.js\<close>

text \<open>
  \<open>generateEmbedding(text)\<close> of the server: the same call as in preprocessing, with
  its own message for the missing credential and no retry.
\<close>

definition keyRequiredErrorServer :: error where
  "keyRequiredErrorServer = Error (lit ''Valid GEMINI_API_KEY is required'') None"

definition generateEmbeddingServer :: "env \<Rightarrow> jsstring \<Rightarrow> event list
    \<Rightarrow> (error + embedding option) \<times> event list" where
  "generateEmbeddingServer e text t = embedTry e keyRequiredErrorServer text t"

subsection \<open>generateStructuredFallback\<close>

text \<open>
  The function works on strings only. For a string \<open>context\<close> no step of its \<open>try\<close>
  block can throw: \<open>split\<close> always gives at least one piece, the second group of a
  match is a string, and \<open>sentences[0] || content.substring(0, 150)\<close> is a string. So
  its \<open>catch\<close> is not reached and has no branch here.

  \<open>documents.forEach((doc, index) => ...)\<close> skips index 0 and turns every other
  document into a pair of title and content.
\<close>

definition firstPiece :: "jsstring list \<Rightarrow> jsstring" where
  "firstPiece pieces = (case pieces of [] \<Rightarrow> [] | p # _ \<Rightarrow> p)"

definition relevantEntry :: "nat \<Rightarrow> jsstring \<Rightarrow> jsstring \<times> jsstring" where
  "relevantEntry index doc =
     (let title = (case matchTitle doc of
                     Some g \<Rightarrow> g
                   | None \<Rightarrow> lit ''Document '' @ numberToString index);
          content = trim (firstPiece (splitOn (lit ''---'') doc));
          sentences = filter (\<lambda>s. length (trim s) > 20) (splitSentences content);
          keySentence = (case sentences of
                           s # _ \<Rightarrow> s
                         | [] \<Rightarrow> substring0 content 150)
      in (trim title, trim keySentence))"

definition relevantInfoOf :: "jsstring \<Rightarrow> (jsstring \<times> jsstring) list" where
  "relevantInfoOf context =
     (let documents' = filter (\<lambda>doc. trim doc \<noteq> []) (splitOn (lit ''[Document'') context)
      in map (\<lambda>(index, doc). relevantEntry index doc)
           (drop 1 (zip [0..<length documents'] documents')))"

definition pageEmoji :: jsstring where
  "pageEmoji = [0xD83D, 0xDCC4]"

definition bulbEmoji :: jsstring where
  "bulbEmoji = [0xD83D, 0xDCA1]"

definition generateStructuredFallback :: "jsstring \<Rightarrow> jsstring \<Rightarrow> jsstring" where
  \<open>generateStructuredFallback context question =
     (let relevantInfo = relevantInfoOf context in
      lit ''Based on the legal documents, here's what I found regarding "'' @ question
        @ lit ''":\<newline>\<newline>''
        @ concat (map (\<lambda>(title, content).
                     pageEmoji @ lit '' **'' @ title @ lit ''**\<newline>''
                       @ content @ lit ''\<newline>\<newline>'') relevantInfo)
        @ lit ''---\<newline>'' @ bulbEmoji
        @ lit '' This information is extracted directly from ''
        @ numberToString (length relevantInfo)
        @ lit '' relevant legal document(s). ''
        @ lit ''For more detailed analysis, please ensure the AI service is available.'')\<close>

subsection \<open>generateAnswer\<close>

definition credentialFallback :: "jsstring \<Rightarrow> jsstring \<Rightarrow> jsstring" where
  \<open>credentialFallback context question =
     lit ''Based on the legal documents found:\<newline>\<newline>'' @ context
       @ lit ''\<newline>\<newline>Relevant information for: "'' @ question @ lit ''"''\<close>

definition buildPrompt :: "jsstring \<Rightarrow> jsstring \<Rightarrow> jsstring" where
  "buildPrompt context question =
     lit ''You are a helpful legal AI assistant. Based on the provided legal document excerpts, answer the user's question in a clear, informative, and conversational manner.\<newline>\<newline>''
     @ lit ''INSTRUCTIONS:\<newline>''
     @ lit ''- Use the document context to provide accurate information\<newline>''
     @ lit ''- Write in a clear, professional but conversational tone\<newline>''
     @ lit ''- Focus on directly answering the user's specific question\<newline>''
     @ lit ''- If the documents contain relevant case details, summarize them helpfully\<newline>''
     @ lit ''- If information is limited, acknowledge what you can and cannot determine from the documents\<newline>''
     @ lit ''- Do not make up information not found in the documents\<newline>\<newline>''
     @ lit ''USER QUESTION: '' @ question @ lit ''\<newline>\<newline>''
     @ lit ''LEGAL DOCUMENT CONTEXT:\<newline>'' @ context @ lit ''\<newline>\<newline>''
     @ lit ''Please provide a helpful answer based on the above context:''"

definition modelEndpoints :: "jsstring list" where
  "modelEndpoints =
     [lit ''gemini-1.5-flash-latest'', lit ''gemini-1.5-flash'', lit ''gemini-pro'']"

definition invalidFormatError :: error where
  "invalidFormatError = Error (lit ''Invalid response format from Gemini API'') None"

text \<open>
  One pass of the loop body: the post, then the check that
  \<open>response.data?.candidates?.[0]?.content?.parts?.[0]?.text\<close> is a non-empty string.
\<close>

definition tryModel :: "env \<Rightarrow> event list \<Rightarrow> error + jsstring" where
  "tryModel e t1 =
     (case generate_post e t1 of
        GenRejected err \<Rightarrow> Inl err
      | GenResolved None \<Rightarrow> Inl invalidFormatError
      | GenResolved (Some s) \<Rightarrow> if s \<noteq> [] then Inr (trim s) else Inl invalidFormatError)"

text \<open>
  The loop over \<open>modelEndpoints\<close>; \<open>rest = []\<close> is \<open>i === modelEndpoints.length - 1\<close>.
  A loop that ends without returning leaves the function with \<open>undefined\<close>, the
  answer \<open>None\<close>.
\<close>

fun tryModels :: "env \<Rightarrow> jsstring \<Rightarrow> jsstring list \<Rightarrow> event list
    \<Rightarrow> (error + jsstring option) \<times> event list" where
  "tryModels e prompt [] t = (Inr None, t)"
| "tryModels e prompt (m # rest) t =
     (let t1 = t @ [GeneratePost m prompt] in
      case tryModel e t1 of
        Inr answer \<Rightarrow> (Inr (Some answer), t1)
      | Inl modelError \<Rightarrow>
          if rest = [] then (Inl modelError, t1)
          else tryModels e prompt rest (t1 @ [Sleep 1000]))"

definition generateAnswer :: "env \<Rightarrow> jsstring \<Rightarrow> jsstring \<Rightarrow> event list
    \<Rightarrow> jsstring option \<times> event list" where
  "generateAnswer e context question t =
     (if keyMissing e then (Some (credentialFallback context question), t)
      else (case tryModels e (buildPrompt context question) modelEndpoints t of
              (Inr answer, t1) \<Rightarrow> (answer, t1)
            | (Inl err, t1) \<Rightarrow>
                if status err = Some 503
                then (Some (generateStructuredFallback context question), t1)
                else if status err = Some 429
                then (Some (generateStructuredFallback context question), t1)
                else (Some (generateStructuredFallback context question), t1)))"

subsection \<open>The handler of POST /api/query\<close>

text \<open>
  The parsed request body. A JSON number is a rational; NaN cannot come from JSON.
\<close>

datatype jsvalue =
    JUndefined | JNull | JBoolean bool | JNumber rat | JString jsstring
  | JArray "jsvalue list" | JObject "(jsstring \<times> jsvalue) list"

definition destructureTypeError :: error where
  "destructureTypeError =
     Error (lit ''Cannot destructure property 'question' of 'req.body' as it is undefined.'') None"

text \<open>
  \<open>const { question } = req.body\<close>: a TypeError for \<open>undefined\<close> and \<open>null\<close>, the
  property of an object, and \<open>undefined\<close> for any other value.
\<close>

definition getQuestion :: "jsvalue \<Rightarrow> error + jsvalue" where
  "getQuestion body =
     (case body of
        JUndefined \<Rightarrow> Inl destructureTypeError
      | JNull \<Rightarrow> Inl destructureTypeError
      | JObject kvs \<Rightarrow>
          Inr (case map_of kvs (lit ''question'') of Some v \<Rightarrow> v | None \<Rightarrow> JUndefined)
      | _ \<Rightarrow> Inr JUndefined)"

fun truthy :: "jsvalue \<Rightarrow> bool" where
  "truthy JUndefined = False"
| "truthy JNull = False"
| "truthy (JBoolean b) = b"
| "truthy (JNumber x) = (x \<noteq> 0)"
| "truthy (JString s) = (s \<noteq> [])"
| "truthy (JArray xs) = True"
| "truthy (JObject kvs) = True"

text \<open>
  \<open>!question || typeof question !== 'string' || question.trim().length < 3\<close>
\<close>

definition questionRejected :: "jsvalue \<Rightarrow> bool" where
  "questionRejected question =
     (\<not> truthy question \<or>
      (case question of JString s \<Rightarrow> length (trim s) < 3 | _ \<Rightarrow> True))"

text \<open>
  A response: \<open>res.status(code).json({success: false, message})\<close>, or
  \<open>res.json({success: true, answer, matches})\<close> with status 200.
\<close>

datatype response =
    JsonFailure nat jsstring
  | JsonAnswer "jsstring option" nat

fun httpStatus :: "response \<Rightarrow> nat" where
  "httpStatus (JsonFailure code msg) = code"
| "httpStatus (JsonAnswer answer n) = 200"

fun success :: "response \<Rightarrow> bool" where
  "success (JsonFailure code msg) = False"
| "success (JsonAnswer answer n) = True"

definition validationFailure :: response where
  "validationFailure = JsonFailure 400 (lit ''Question must be at least 3 characters long'')"

definition serverFailure :: response where
  "serverFailure = JsonFailure 500 (lit ''Failed to process query. Please try again.'')"

definition noDocumentsAnswer :: jsstring where
  "noDocumentsAnswer = lit ''I couldn't find any relevant documents for your question. Please try rephrasing your query or ask about different legal topics.''"

definition notRelatedAnswer :: jsstring where
  "notRelatedAnswer = lit ''I found some documents, but they don't seem closely related to your question. Please try rephrasing your query or ask about different legal topics.''"

text \<open>
  \<open>documents.filter((_, i) => distances[i] < 1.5)\<close>. Past the end of \<open>distances\<close> the
  read gives \<open>undefined\<close>, and \<open>undefined < 1.5\<close> is false.
\<close>

definition goodMatchesOf :: "jsstring list \<Rightarrow> rat list \<Rightarrow> jsstring list" where
  "goodMatchesOf documents' distances =
     map fst (filter (\<lambda>(doc, i). i < length distances \<and> distances ! i < 1.5)
                (zip documents' [0..<length documents']))"

definition metadataTypeError :: error where
  "metadataTypeError =
     Error (lit ''Cannot read properties of undefined (reading 'title')'') None"

text \<open>
  One entry of the context. \<open>metadatas[documents.indexOf(doc)]\<close> is \<open>undefined\<close> when the
  index is \<open>-1\<close> or past the end, and reading \<open>title\<close> of \<open>undefined\<close> or \<open>null\<close>
  throws; an absent title prints as \<open>undefined\<close>.
\<close>

definition contextEntry :: "jsstring list \<Rightarrow> jsstring option option list \<Rightarrow> nat \<Rightarrow> jsstring
    \<Rightarrow> error + jsstring" where
  "contextEntry documents' metadatas' i doc =
     (case indexOf documents' doc of
        None \<Rightarrow> Inl metadataTypeError
      | Some j \<Rightarrow>
          if j < length metadatas'
          then (case metadatas' ! j of
                  None \<Rightarrow> Inl metadataTypeError
                | Some title \<Rightarrow>
                    Inr (lit ''[Document '' @ numberToString (i + 1) @ lit '': ''
                         @ (case title of Some s \<Rightarrow> s | None \<Rightarrow> lit ''undefined'')
                         @ lit '']\<newline>''
                         @ substring0 doc 800
                         @ (if length doc > 800 then lit ''...'' else [])
                         @ lit ''\<newline>---''))
          else Inl metadataTypeError)"

fun contextEntries :: "jsstring list \<Rightarrow> jsstring option option list \<Rightarrow> nat \<Rightarrow> jsstring list
    \<Rightarrow> error + jsstring list" where
  "contextEntries documents' metadatas' i [] = Inr []"
| "contextEntries documents' metadatas' i (doc # rest) =
     (case contextEntry documents' metadatas' i doc of
        Inl err \<Rightarrow> Inl err
      | Inr entry \<Rightarrow>
          (case contextEntries documents' metadatas' (i + 1) rest of
             Inl err \<Rightarrow> Inl err
           | Inr entries \<Rightarrow> Inr (entry # entries)))"

definition buildContext :: "jsstring list \<Rightarrow> jsstring list \<Rightarrow> jsstring option option list
    \<Rightarrow> error + jsstring" where
  "buildContext goodMatches documents' metadatas' =
     (case contextEntries documents' metadatas' 0 (slice goodMatches 0 5) of
        Inl err \<Rightarrow> Inl err
      | Inr entries \<Rightarrow> Inr (join (lit ''\<newline>'') entries))"

text \<open>
  The handler itself, after the \<open>auth\<close> middleware has let the request through. Every
  throw inside its \<open>try\<close> ends in the status 500 response of its \<open>catch\<close>.
\<close>

definition queryHandler :: "env \<Rightarrow> jsvalue \<Rightarrow> event list \<Rightarrow> response \<times> event list" where
  "queryHandler e body t =
     (case getQuestion body of
        Inl err \<Rightarrow> (serverFailure, t)
      | Inr question \<Rightarrow>
          if questionRejected question then (validationFailure, t)
          else (case question of
                  JString q \<Rightarrow>
                    (case generateEmbeddingServer e q t of
                       (Inl err, t1) \<Rightarrow> (serverFailure, t1)
                     | (Inr queryEmbedding, t1) \<Rightarrow>
                         (let t2 = t1 @ [CollectionQuery queryEmbedding] in
                          case collection_query e t2 of
                            Inl err \<Rightarrow> (serverFailure, t2)
                          | Inr results \<Rightarrow>
                              (case documents0 results of
                                 None \<Rightarrow> (JsonAnswer (Some noDocumentsAnswer) 0, t2)
                               | Some documents' \<Rightarrow>
                                   if length documents' = 0
                                   then (JsonAnswer (Some noDocumentsAnswer) 0, t2)
                                   else (let goodMatches =
                                               goodMatchesOf documents' (distances0 results)
                                         in if length goodMatches = 0
                                            then (JsonAnswer (Some notRelatedAnswer) 0, t2)
                                            else (case buildContext goodMatches documents'
                                                         (metadatas0 results) of
                                                    Inl err \<Rightarrow> (serverFailure, t2)
                                                  | Inr context \<Rightarrow>
                                                      (let (answer, t3) =
                                                             generateAnswer e context q t2
                                                       in (JsonAnswer answer
                                                             (length goodMatches), t3)))))))
                | _ \<Rightarrow> (serverFailure, t)))"

section \<open>Reading a trace\<close>

fun isEmbedPost :: "event \<Rightarrow> bool" where
  "isEmbedPost (EmbedPost text) = True"
| "isEmbedPost ev = False"

text \<open>The remote calls of a trace, and the write requests among them.\<close>

fun isRemoteCall :: "event \<Rightarrow> bool" where
  "isRemoteCall (Sleep ms) = False"
| "isRemoteCall ClockRead = False"
| "isRemoteCall ev = True"

fun addRequests :: "event list \<Rightarrow> add_request list" where
  "addRequests [] = []"
| "addRequests (CollectionAdd req # evs) = req # addRequests evs"
| "addRequests (ev # evs) = addRequests evs"

text \<open>
  \<open>retryTrace a r n\<close>: the call \<open>a\<close> made \<open>n + 1\<close> times, with a pause of
  \<open>1000 * k\<close> milliseconds after the failed call number \<open>k\<close>, the count starting at
  \<open>r + 1\<close>. So \<open>retryTrace a 0 3 = [a, Sleep 1000, a, Sleep 2000, a, Sleep 3000, a]\<close>.
\<close>

fun retryTrace :: "event \<Rightarrow> nat \<Rightarrow> nat \<Rightarrow> event list" where
  "retryTrace a r 0 = [a]"
| "retryTrace a r (Suc n) = a # Sleep (1000 * (r + 1)) # retryTrace a (r + 1) n"

text \<open>The error with which one embedding attempt fails, if it fails.\<close>

definition embedError :: "env \<Rightarrow> event list \<Rightarrow> error option" where
  "embedError e t1 =
     (case embed_post e t1 of
        PostRejected err \<Rightarrow> Some err
      | NoEmbeddingField \<Rightarrow> Some valuesTypeError
      | EmbeddingValues v \<Rightarrow> None)"

text \<open>
  The two ways a sub-batch can fail: a call of \<open>generateEmbedding\<close> for one of its
  chunks throws, or the embeddings are all there and the write throws after its retries.
  \<open>batchRequest\<close> is the request that \<open>processChunkBatch\<close> sends for given embeddings.
\<close>

definition batchRequest :: "env \<Rightarrow> jsstring list \<Rightarrow> jsstring \<Rightarrow> nat \<Rightarrow> event list
    \<Rightarrow> embedding option list \<Rightarrow> add_request" where
  "batchRequest e docs fileName startIndex t embs =
     \<lparr>ids = map (\<lambda>idx. chunkId fileName (startIndex + idx)) [0..<length docs],
      embeddings = embs,
      documents = docs,
      metadatas = fst (buildMetadatas e fileName startIndex (length docs) 0 docs t)\<rparr>"



text \<open>
  What a write request must hold for the document \<open>docs\<close> of the file \<open>f\<close>: for some
  start \<open>i\<close>, its entry number \<open>k\<close> has the text of chunk \<open>i + k\<close> and the id made from
  the file name and \<open>i + k\<close>.
\<close>

definition entriesOf :: "jsstring \<Rightarrow> jsstring list \<Rightarrow> add_request \<Rightarrow> bool" where
  "entriesOf f docs req =
     (\<exists>i < length docs.
        length (ids req) = length (documents req)
      \<and> i + length (ids req) \<le> length docs
      \<and> (\<forall>k < length (ids req).
            ids req ! k = chunkId f (i + k) \<and> documents req ! k = docs ! (i + k)))"

text \<open>No generation backend gives an answer, whenever and however it is asked.\<close>

definition noBackendAnswers :: "env \<Rightarrow> bool" where
  "noBackendAnswers e = (\<forall>h. isl (tryModel e h))"

text \<open>A run in which the credential is configured and no embedding or write fails.\<close>

definition everyCallSucceeds :: "env \<Rightarrow> bool" where
  "everyCallSucceeds e =
     (\<not> keyMissing e
      \<and> (\<forall>h. \<exists>v. embed_post e h = EmbeddingValues v)
      \<and> (\<forall>h. collection_add e h = None))"

section \<open>Concrete environments and inputs\<close>

definition sampleResults :: query_result where
  "sampleResults =
     \<lparr>documents0 = Some [lit ''alpha'', lit ''beta'', lit ''gamma'', lit ''delta''],
      metadatas0 = [Some (Some (lit ''Case A'')), Some (Some (lit ''Case B'')),
                    Some (Some (lit ''Case C'')), Some (Some (lit ''Case D''))],
      distances0 = [0.2, 0.8, 1.6, 2.0]\<rparr>"

text \<open>Every service answers.\<close>

definition envUp :: env where
  "envUp =
     \<lparr>GEMINI_API_KEY = Some (lit ''key''),
      embed_post = (\<lambda>t. EmbeddingValues (Some [1 / 2, 1 / 4])),
      collection_add = (\<lambda>t. None),
      collection_query = (\<lambda>t. Inr sampleResults),
      generate_post = (\<lambda>t. GenResolved (Some (lit ''The contract was void.''))),
      clock = (\<lambda>t. lit ''2024-01-01T00:00:00.000Z''),
      read_pdf = (\<lambda>p. Inr (lit ''text'')),
      split_text = (\<lambda>s. [s])\<rparr>"

text \<open>The credential is configured and every remote call fails.\<close>

definition envDown :: env where
  "envDown =
     \<lparr>GEMINI_API_KEY = Some (lit ''key''),
      embed_post = (\<lambda>t. PostRejected (Error (lit ''timeout of 30000ms exceeded'') None)),
      collection_add = (\<lambda>t. Some (Error (lit ''connect ECONNREFUSED'') None)),
      collection_query = (\<lambda>t. Inl (Error (lit ''connect ECONNREFUSED'') None)),
      generate_post = (\<lambda>t. GenRejected (Error (lit ''Service Unavailable'') (Some 503))),
      clock = (\<lambda>t. lit ''2024-01-01T00:00:00.000Z''),
      read_pdf = (\<lambda>p. Inl (Error (lit ''ENOENT'') None)),
      split_text = (\<lambda>s. [])\<rparr>"

text \<open>No credential; an index with no entries; an index whose entries are all far.\<close>

definition envNoKey :: env where
  "envNoKey = envUp\<lparr>GEMINI_API_KEY := None\<rparr>"

definition emptyResults :: query_result where
  "emptyResults = \<lparr>documents0 = Some [], metadatas0 = [], distances0 = []\<rparr>"

definition envEmptyIndex :: env where
  "envEmptyIndex = envUp\<lparr>collection_query := (\<lambda>t. Inr emptyResults)\<rparr>"

definition farResults :: query_result where
  "farResults =
     \<lparr>documents0 = Some [lit ''alpha'', lit ''beta''],
      metadatas0 = [Some (Some (lit ''Case A'')), Some (Some (lit ''Case B''))],
      distances0 = [1.5, 1.7]\<rparr>"

definition envFar :: env where
  "envFar = envUp\<lparr>collection_query := (\<lambda>t. Inr farResults)\<rparr>"

text \<open>Every generation backend answers without a text.\<close>

definition envSilent :: env where
  "envSilent = envUp\<lparr>generate_post := (\<lambda>t. GenResolved None)\<rparr>"

definition sampleContext :: jsstring where
  "sampleContext =
     lit ''[Document 1: Case A]\<newline>The court held that the contract was void.\<newline>---\<newline>[Document 2: Case B]\<newline>Short.\<newline>---''"

definition sampleQuestion :: jsstring where
  "sampleQuestion = lit ''Was the contract void?''"

definition questionBody :: "jsstring \<Rightarrow> jsvalue" where
  "questionBody q = JObject [(lit ''question'', JString q)]"

definition elevenChunks :: "jsstring list" where
  "elevenChunks = map (\<lambda>k. lit ''chunk '' @ numberToString k) [0..<11]"


definition twoChunks :: "jsstring list" where
  "twoChunks = [lit ''first chunk'', lit ''second chunk'']"

text \<open>A file whose text of 120 characters is split into eleven chunks.\<close>

definition longText :: jsstring where
  "longText = concat (replicate 12 (lit ''0123456789''))"

definition envEleven :: env where
  "envEleven = envUp\<lparr>read_pdf := (\<lambda>p. Inr longText), split_text := (\<lambda>s. elevenChunks)\<rparr>"

section \<open>Traces of the helpers\<close>

declare generateEmbedding.simps [simp del]
declare addLoop.simps [simp del]
declare chunkLoop.simps [simp del]

lemma addRequests_append: "addRequests (xs @ ys) = addRequests xs @ addRequests ys"
  by (induction xs rule: addRequests.induct) simp_all

lemma buildMetadatas_trace:
  "snd (buildMetadatas e f s n idx docs t) = t @ replicate (length docs) ClockRead"
proof (induction docs arbitrary: idx t)
  case Nil
  show ?case by simp
next
  case (Cons d ds)
  have "snd (buildMetadatas e f s n (idx + 1) ds (t @ [ClockRead]))
          = (t @ [ClockRead]) @ replicate (length ds) ClockRead"
    by (rule Cons.IH)
  then show ?case
    by (simp add: Let_def case_prod_beta replicate_app_Cons_same)
qed

lemma envDown_key: "\<not> keyMissing envDown"
  by (simp add: keyMissing_def envDown_def lit_def)

lemma envUp_key: "\<not> keyMissing envUp"
  by (simp add: keyMissing_def envUp_def lit_def)

lemma envNoKey_key: "keyMissing envNoKey"
  by (simp add: keyMissing_def envNoKey_def envUp_def)

section \<open>The embedding client of preprocessing\<close>

lemma embedTry_cases:
  assumes "\<not> keyMissing e"
  shows "embedTry e k tx t =
     (case embedError e (t @ [EmbedPost tx]) of
        Some err \<Rightarrow> (Inl err, t @ [EmbedPost tx])
      | None \<Rightarrow>
          (Inr (case embed_post e (t @ [EmbedPost tx]) of
                  EmbeddingValues v \<Rightarrow> v
                | _ \<Rightarrow> None),
           t @ [EmbedPost tx]))"
  using assms by (simp add: embedTry_def embedError_def Let_def split: embed_response.splits)

text \<open>
  With the credential in place, a call that starts with the retry counter at \<open>retries\<close>
  makes \<open>n + 1\<close> posts for some \<open>n\<close> up to \<open>MAX_RETRIES - retries\<close>, with the growing
  pauses between them; it throws only after the last allowed post, with that post's error.
\<close>

lemma generateEmbedding_trace:
  assumes "\<not> keyMissing e" and "retries \<le> MAX_RETRIES"
  shows "\<exists>n \<le> MAX_RETRIES - retries.
           snd (generateEmbedding e tx retries t) = t @ retryTrace (EmbedPost tx) retries n
         \<and> (\<forall>err. fst (generateEmbedding e tx retries t) = Inl err \<longrightarrow>
               n = MAX_RETRIES - retries
             \<and> embedError e (t @ retryTrace (EmbedPost tx) retries n) = Some err)
         \<and> (\<forall>v. fst (generateEmbedding e tx retries t) = Inr v \<longrightarrow>
               embed_post e (t @ retryTrace (EmbedPost tx) retries n) = EmbeddingValues v)"
  using assms
proof (induction e tx retries t rule: generateEmbedding.induct)
  case (1 e tx retries t)
  let ?t1 = "t @ [EmbedPost tx]"
  show ?case
  proof (cases "embedError e ?t1")
    case None
    then have "generateEmbedding e tx retries t =
        (Inr (case embed_post e ?t1 of EmbeddingValues v \<Rightarrow> v | _ \<Rightarrow> None), ?t1)"
      using "1.prems"(1) by (subst generateEmbedding.simps) (simp add: embedTry_cases)
    moreover have "\<exists>v. embed_post e ?t1 = EmbeddingValues v"
      using None by (simp add: embedError_def split: embed_response.splits)
    ultimately show ?thesis
      by (intro exI[of _ 0]) auto
  next
    case (Some err)
    then have tr: "embedTry e keyRequiredError tx t = (Inl err, ?t1)"
      using "1.prems"(1) by (simp add: embedTry_cases)
    show ?thesis
    proof (cases "retries < MAX_RETRIES")
      case False
      then have "generateEmbedding e tx retries t = (Inl err, ?t1)"
        using tr by (subst generateEmbedding.simps) simp
      then show ?thesis using Some False "1.prems"(2)
        by (intro exI[of _ 0]) auto
    next
      case True
      let ?t2 = "?t1 @ [Sleep (1000 * (retries + 1))]"
      have eq: "generateEmbedding e tx retries t = generateEmbedding e tx (retries + 1) ?t2"
        using tr True by (subst generateEmbedding.simps) simp
      from "1.IH"[OF tr[symmetric] refl True "1.prems"(1)] True
      obtain n where n: "n \<le> MAX_RETRIES - (retries + 1)"
        "snd (generateEmbedding e tx (retries + 1) ?t2)
           = ?t2 @ retryTrace (EmbedPost tx) (retries + 1) n"
        "\<forall>err. fst (generateEmbedding e tx (retries + 1) ?t2) = Inl err \<longrightarrow>
               n = MAX_RETRIES - (retries + 1)
             \<and> embedError e (?t2 @ retryTrace (EmbedPost tx) (retries + 1) n) = Some err"
        "\<forall>v. fst (generateEmbedding e tx (retries + 1) ?t2) = Inr v \<longrightarrow>
               embed_post e (?t2 @ retryTrace (EmbedPost tx) (retries + 1) n)
                 = EmbeddingValues v"
        by auto
      show ?thesis
        using n True by (intro exI[of _ "Suc n"]) (auto simp: eq)
    qed
  qed
qed

lemma retryTrace_posts:
  "length (filter isEmbedPost (retryTrace (EmbedPost tx) r n)) = n + 1"
  by (induction n arbitrary: r) simp_all

lemma generateEmbedding_keyMissing:
  assumes "keyMissing e"
  shows "generateEmbedding e tx 0 t
           = (Inl keyRequiredError, t @ [Sleep 1000, Sleep 2000, Sleep 3000])"
  using assms by (simp add: generateEmbedding.simps embedTry_def MAX_RETRIES_def)

text \<open>
  Claim C2, as the code has it. \<open>generateEmbedding\<close> makes its first attempt and then up
  to \<open>MAX_RETRIES = 3\<close> retries: with the credential configured, the events of a call
  are \<open>retryTrace (EmbedPost text) 0 n\<close> for some \<open>n \<le> 3\<close>, that is \<open>n + 1 \<le> 4\<close> posts with
  a pause of \<open>1000 * k\<close> milliseconds after the failed attempt number \<open>k\<close>. The call throws
  only when \<open>n = 3\<close>, after the fourth post, and what it throws is the error of that last
  attempt. A value it returns is the one the last post answered. Without a credential no
  post is made, and the configuration error is thrown after the same three pauses.
\<close>

theorem generateEmbedding_backoff:
  "(\<not> keyMissing e \<longrightarrow>
      (\<exists>n \<le> MAX_RETRIES.
          snd (generateEmbedding e tx 0 t) = t @ retryTrace (EmbedPost tx) 0 n
        \<and> length (filter isEmbedPost (retryTrace (EmbedPost tx) 0 n)) = n + 1
        \<and> (\<forall>err. fst (generateEmbedding e tx 0 t) = Inl err \<longrightarrow>
              n = MAX_RETRIES \<and> embedError e (snd (generateEmbedding e tx 0 t)) = Some err)
        \<and> (\<forall>v. fst (generateEmbedding e tx 0 t) = Inr v \<longrightarrow>
              embed_post e (snd (generateEmbedding e tx 0 t)) = EmbeddingValues v)))
   \<and> (keyMissing e \<longrightarrow>
        generateEmbedding e tx 0 t
          = (Inl keyRequiredError, t @ [Sleep 1000, Sleep 2000, Sleep 3000]))"
proof (intro conjI impI)
  assume k: "\<not> keyMissing e"
  from generateEmbedding_trace[OF k, of 0 tx t]
  obtain n where n: "n \<le> MAX_RETRIES"
    "snd (generateEmbedding e tx 0 t) = t @ retryTrace (EmbedPost tx) 0 n"
    "\<forall>err. fst (generateEmbedding e tx 0 t) = Inl err \<longrightarrow>
        n = MAX_RETRIES \<and> embedError e (t @ retryTrace (EmbedPost tx) 0 n) = Some err"
    "\<forall>v. fst (generateEmbedding e tx 0 t) = Inr v \<longrightarrow>
        embed_post e (t @ retryTrace (EmbedPost tx) 0 n) = EmbeddingValues v"
    by auto
  show "\<exists>n \<le> MAX_RETRIES.
          snd (generateEmbedding e tx 0 t) = t @ retryTrace (EmbedPost tx) 0 n
        \<and> length (filter isEmbedPost (retryTrace (EmbedPost tx) 0 n)) = n + 1
        \<and> (\<forall>err. fst (generateEmbedding e tx 0 t) = Inl err \<longrightarrow>
              n = MAX_RETRIES \<and> embedError e (snd (generateEmbedding e tx 0 t)) = Some err)
        \<and> (\<forall>v. fst (generateEmbedding e tx 0 t) = Inr v \<longrightarrow>
              embed_post e (snd (generateEmbedding e tx 0 t)) = EmbeddingValues v)"
    using n retryTrace_posts[of tx 0 n] by (intro exI[of _ n]) auto
next
  assume "keyMissing e"
  then show "generateEmbedding e tx 0 t
          = (Inl keyRequiredError, t @ [Sleep 1000, Sleep 2000, Sleep 3000])"
    by (rule generateEmbedding_keyMissing)
qed

text \<open>
  The theorem at two environments: one where every post is rejected, one with no
  credential.
\<close>

theorem generateEmbedding_backoff_witness:
  "\<not> keyMissing envDown
   \<and> snd (generateEmbedding envDown (lit ''q'') 0 [])
       = retryTrace (EmbedPost (lit ''q'')) 0 MAX_RETRIES
   \<and> embedError envDown (snd (generateEmbedding envDown (lit ''q'') 0 []))
       = Some (Error (lit ''timeout of 30000ms exceeded'') None)
   \<and> keyMissing envNoKey
   \<and> generateEmbedding envNoKey (lit ''q'') 0 []
        = (Inl keyRequiredError, [Sleep 1000, Sleep 2000, Sleep 3000])"
proof -
  have f: "fst (generateEmbedding envDown (lit ''q'') 0 [])
             = Inl (Error (lit ''timeout of 30000ms exceeded'') None)"
    by code_simp
  show ?thesis
    using envDown_key envNoKey_key f
      generateEmbedding_backoff[of envDown "lit ''q''" "[]"]
      generateEmbedding_backoff[of envNoKey "lit ''q''" "[]"]
    by auto
qed

text \<open>
  Against claim C2 as written (at most \<open>MAX_RETRIES = 3\<close> attempts): when every post is
  rejected, one call makes four.
\<close>

theorem generateEmbedding_four_attempts:
  "\<not> length (filter isEmbedPost (snd (generateEmbedding envDown (lit ''q'') 0 [])))
       \<le> MAX_RETRIES"
  by code_simp

section \<open>The batch uploader\<close>

text \<open>
  The write loop, entered with fewer than \<open>MAX_RETRIES\<close> failures counted, makes at most
  \<open>MAX_RETRIES - retries\<close> requests and never leaves by its loop condition: it reports
  the write as done after a request the index accepted, or throws the error of the last
  allowed request.
\<close>

lemma addLoop_trace:
  assumes "retries < MAX_RETRIES"
  shows "\<exists>n < MAX_RETRIES - retries.
      snd (addLoop e req retries t) = t @ retryTrace (CollectionAdd req) retries n
    \<and> (case fst (addLoop e req retries t) of
         Added \<Rightarrow> collection_add e (t @ retryTrace (CollectionAdd req) retries n) = None
       | AddThrew err \<Rightarrow> n + 1 = MAX_RETRIES - retries
            \<and> collection_add e (t @ retryTrace (CollectionAdd req) retries n) = Some err
       | LoopLeft \<Rightarrow> False)"
  using assms
proof (induction e req retries t rule: addLoop.induct)
  case (1 e req retries t)
  let ?t1 = "t @ [CollectionAdd req]"
  show ?case
  proof (cases "collection_add e ?t1")
    case None
    then have "addLoop e req retries t = (Added, ?t1)"
      using "1.prems" by (subst addLoop.simps) (simp add: Let_def)
    then show ?thesis using None "1.prems"
      by (intro exI[of _ 0]) auto
  next
    case (Some err)
    show ?thesis
    proof (cases "retries + 1 \<ge> MAX_RETRIES")
      case True
      then have "addLoop e req retries t = (AddThrew err, ?t1)"
        using "1.prems" Some by (subst addLoop.simps) (simp add: Let_def)
      then show ?thesis using Some True "1.prems"
        by (intro exI[of _ 0]) auto
    next
      case False
      let ?t2 = "?t1 @ [Sleep (1000 * (retries + 1))]"
      have eq: "addLoop e req retries t = addLoop e req (retries + 1) ?t2"
        using "1.prems" Some False by (subst addLoop.simps) (simp add: Let_def)
      from False have lt: "retries + 1 < MAX_RETRIES" by simp
      from "1.IH"[OF "1.prems" refl Some False lt]
      obtain n where n: "n < MAX_RETRIES - (retries + 1)"
        "snd (addLoop e req (retries + 1) ?t2)
           = ?t2 @ retryTrace (CollectionAdd req) (retries + 1) n"
        "(case fst (addLoop e req (retries + 1) ?t2) of
            Added \<Rightarrow> collection_add e (?t2 @ retryTrace (CollectionAdd req) (retries + 1) n) = None
          | AddThrew err \<Rightarrow> n + 1 = MAX_RETRIES - (retries + 1)
              \<and> collection_add e (?t2 @ retryTrace (CollectionAdd req) (retries + 1) n) = Some err
          | LoopLeft \<Rightarrow> False)"
        by auto
      show ?thesis
        using n lt by (intro exI[of _ "Suc n"]) (auto simp: eq split: add_outcome.splits)
    qed
  qed
qed


lemma processChunkBatch_steps:
  "processChunkBatch e docs f s t =
     (case embedLoop e docs (t @ replicate (length docs) ClockRead) of
        (Inl err, t2) \<Rightarrow> (Some 0, t2)
      | (Inr embs, t2) \<Rightarrow>
          (case addLoop e (batchRequest e docs f s t embs) 0 t2 of
             (Added, t3) \<Rightarrow> (Some (length docs), t3)
           | (AddThrew err, t3) \<Rightarrow> (Some 0, t3)
           | (LoopLeft, t3) \<Rightarrow> (None, t3)))"
  unfolding processChunkBatch_def batchRequest_def Let_def
  by (simp add: case_prod_beta buildMetadatas_trace)



section \<open>The ids and texts of the write requests\<close>

lemma embedTry_addRequests: "addRequests (snd (embedTry e k tx t)) = addRequests t"
  by (simp add: embedTry_def Let_def addRequests_append split: embed_response.splits)

lemma generateEmbedding_addRequests:
  "addRequests (snd (generateEmbedding e tx retries t)) = addRequests t"
proof (induction e tx retries t rule: generateEmbedding.induct)
  case (1 e tx retries t)
  obtain r t1 where tr: "embedTry e keyRequiredError tx t = (r, t1)"
    by (cases "embedTry e keyRequiredError tx t")
  have t1: "addRequests t1 = addRequests t"
    using embedTry_addRequests[of e keyRequiredError tx t] tr by simp
  show ?case
  proof (cases r)
    case (Inr v)
    then show ?thesis using tr t1 by (subst generateEmbedding.simps) simp
  next
    case (Inl err)
    show ?thesis
    proof (cases "retries < MAX_RETRIES")
      case True
      have "addRequests (snd (generateEmbedding e tx (retries + 1)
                (t1 @ [Sleep (1000 * (retries + 1))])))
            = addRequests (t1 @ [Sleep (1000 * (retries + 1))])"
        using "1.IH"[OF tr[symmetric] Inl True] by simp
      then show ?thesis using tr t1 Inl True
        by (subst generateEmbedding.simps) (simp add: addRequests_append)
    next
      case False
      then show ?thesis using tr t1 Inl by (subst generateEmbedding.simps) simp
    qed
  qed
qed

lemma embedLoop_addRequests:
  "addRequests (snd (embedLoop e docs t)) = addRequests t"
proof (induction docs arbitrary: t)
  case Nil
  show ?case by simp
next
  case (Cons d ds)
  obtain r t1 where g: "generateEmbedding e d 0 t = (r, t1)"
    by (cases "generateEmbedding e d 0 t")
  have t1: "addRequests t1 = addRequests t"
    using generateEmbedding_addRequests[of e d 0 t] g by simp
  show ?case
  proof (cases r)
    case (Inl err)
    then show ?thesis using g t1 by simp
  next
    case (Inr v)
    let ?t2 = "if ds \<noteq> [] then t1 @ [Sleep 1000] else t1"
    have "addRequests (snd (embedLoop e ds ?t2)) = addRequests ?t2"
      by (rule Cons.IH)
    then show ?thesis using g t1 Inr
      by (auto simp: addRequests_append split: prod.splits sum.splits)
  qed
qed

lemma retryTrace_addRequests:
  "addRequests (retryTrace (CollectionAdd req) r n) = replicate (n + 1) req"
  by (induction n arbitrary: r) simp_all

lemma addRequests_clock: "addRequests (replicate n ClockRead) = []"
  by (induction n) simp_all

lemma processChunkBatch_addRequests:
  "\<exists>embs k. addRequests (snd (processChunkBatch e docs f s t))
      = addRequests t @ replicate k (batchRequest e docs f s t embs)"
proof (cases "embedLoop e docs (t @ replicate (length docs) ClockRead)")
  case (Pair r t2)
  have t2: "addRequests t2 = addRequests t"
    using embedLoop_addRequests[of e docs "t @ replicate (length docs) ClockRead"] Pair
    by (simp add: addRequests_append addRequests_clock)
  show ?thesis
  proof (cases r)
    case (Inl err)
    then show ?thesis using Pair t2
      by (intro exI[of _ "[]"] exI[of _ 0]) (simp add: processChunkBatch_steps)
  next
    case (Inr embs)
    have "0 < MAX_RETRIES" by (simp add: MAX_RETRIES_def)
    from addLoop_trace[OF this, of e "batchRequest e docs f s t embs" t2]
    obtain n where n: "snd (addLoop e (batchRequest e docs f s t embs) 0 t2)
        = t2 @ retryTrace (CollectionAdd (batchRequest e docs f s t embs)) 0 n"
      by auto
    have "snd (processChunkBatch e docs f s t)
            = snd (addLoop e (batchRequest e docs f s t embs) 0 t2)"
      using Pair Inr
      by (simp add: processChunkBatch_steps split: prod.splits add_outcome.splits)
    then show ?thesis using n t2
      by (intro exI[of _ embs] exI[of _ "n + 1"])
         (simp add: addRequests_append retryTrace_addRequests)
  qed
qed

lemma batchRequest_entries:
  assumes "i < length docs"
  shows "length (ids (batchRequest e (slice docs i (i + CHUNK_BATCH_SIZE)) f i t embs))
           = length (documents (batchRequest e (slice docs i (i + CHUNK_BATCH_SIZE)) f i t embs))"
    and "i + length (ids (batchRequest e (slice docs i (i + CHUNK_BATCH_SIZE)) f i t embs))
           \<le> length docs"
    and "\<forall>k < length (ids (batchRequest e (slice docs i (i + CHUNK_BATCH_SIZE)) f i t embs)).
           ids (batchRequest e (slice docs i (i + CHUNK_BATCH_SIZE)) f i t embs) ! k
             = chunkId f (i + k)
         \<and> documents (batchRequest e (slice docs i (i + CHUNK_BATCH_SIZE)) f i t embs) ! k
             = docs ! (i + k)"
  using assms by (auto simp: batchRequest_def slice_def)

lemma chunkLoop_requests:
  "set (addRequests (snd (chunkLoop e docs f i acc t)))
     \<subseteq> set (addRequests t) \<union> {req. entriesOf f docs req}"
proof (induction e docs f i acc t rule: chunkLoop.induct)
  case (1 e docs f i acc t)
  show ?case
  proof (cases "i < length docs")
    case False
    then show ?thesis by (subst chunkLoop.simps) simp
  next
    case True
    let ?cb = "slice docs i (i + CHUNK_BATCH_SIZE)"
    obtain b t1 where p: "processChunkBatch e ?cb f i t = (b, t1)"
      by (cases "processChunkBatch e ?cb f i t")
    let ?t2 = "if i + CHUNK_BATCH_SIZE < length docs then t1 @ [Sleep 100] else t1"
    have eq: "chunkLoop e docs f i acc t
        = chunkLoop e docs f (i + CHUNK_BATCH_SIZE) (addNumbers acc b) ?t2"
      using True p by (subst chunkLoop.simps) (simp add: Let_def)
    have ih: "set (addRequests (snd (chunkLoop e docs f (i + CHUNK_BATCH_SIZE)
                 (addNumbers acc b) ?t2)))
          \<subseteq> set (addRequests ?t2) \<union> {req. entriesOf f docs req}"
      using "1.IH"[OF True refl p[symmetric] refl] by simp
    obtain embs k where r: "addRequests t1
        = addRequests t @ replicate k (batchRequest e ?cb f i t embs)"
      using processChunkBatch_addRequests[of e ?cb f i t] p by auto
    have "entriesOf f docs (batchRequest e ?cb f i t embs)"
      unfolding entriesOf_def using batchRequest_entries[OF True, of e f t embs] True
      by (intro exI[of _ i]) simp
    then have "set (addRequests ?t2) \<subseteq> set (addRequests t) \<union> {req. entriesOf f docs req}"
      using r by (auto simp: addRequests_append)
    then show ?thesis using ih eq by auto
  qed
qed

text \<open>When no call fails, every sub-batch is written by exactly one request.\<close>

lemma generateEmbedding_succeeds:
  assumes "everyCallSucceeds e"
  shows "\<exists>v. fst (generateEmbedding e tx 0 t) = Inr v"
proof (cases "fst (generateEmbedding e tx 0 t)")
  case (Inr v)
  then show ?thesis by simp
next
  case (Inl err)
  from assms have k: "\<not> keyMissing e" by (simp add: everyCallSucceeds_def)
  from generateEmbedding_trace[OF k, of 0 tx t] Inl
  obtain h where "embedError e h = Some err" by auto
  moreover from assms obtain v where "embed_post e h = EmbeddingValues v"
    by (auto simp: everyCallSucceeds_def)
  ultimately show ?thesis by (simp add: embedError_def)
qed

lemma embedLoop_succeeds:
  assumes "everyCallSucceeds e"
  shows "\<exists>embs. fst (embedLoop e docs t) = Inr embs"
proof (induction docs arbitrary: t)
  case Nil
  show ?case by simp
next
  case (Cons d ds)
  obtain v where v: "fst (generateEmbedding e d 0 t) = Inr v"
    using generateEmbedding_succeeds[OF assms] by blast
  obtain t1 where g: "generateEmbedding e d 0 t = (Inr v, t1)"
    using v by (cases "generateEmbedding e d 0 t") simp
  obtain embs where "fst (embedLoop e ds (if ds \<noteq> [] then t1 @ [Sleep 1000] else t1)) = Inr embs"
    using Cons.IH by blast
  then show ?case using g
    by (cases "embedLoop e ds (if ds \<noteq> [] then t1 @ [Sleep 1000] else t1)") auto
qed

lemma addLoop_succeeds:
  assumes "everyCallSucceeds e"
  shows "addLoop e req 0 t = (Added, t @ [CollectionAdd req])"
  using assms
  by (subst addLoop.simps) (simp add: everyCallSucceeds_def MAX_RETRIES_def Let_def)

lemma processChunkBatch_succeeds:
  assumes "everyCallSucceeds e"
  shows "\<exists>embs. addRequests (snd (processChunkBatch e docs f s t))
            = addRequests t @ [batchRequest e docs f s t embs]"
proof -
  obtain embs where "fst (embedLoop e docs (t @ replicate (length docs) ClockRead)) = Inr embs"
    using embedLoop_succeeds[OF assms] by blast
  then obtain t2 where l: "embedLoop e docs (t @ replicate (length docs) ClockRead) = (Inr embs, t2)"
    by (cases "embedLoop e docs (t @ replicate (length docs) ClockRead)") simp
  have t2: "addRequests t2 = addRequests t"
    using embedLoop_addRequests[of e docs "t @ replicate (length docs) ClockRead"] l
    by (simp add: addRequests_append addRequests_clock)
  show ?thesis
    using l t2 addLoop_succeeds[OF assms]
    by (intro exI[of _ embs]) (simp add: processChunkBatch_steps addRequests_append)
qed

lemma batchRequest_ids:
  "ids (batchRequest e (slice docs i (i + CHUNK_BATCH_SIZE)) f i t embs)
     = map (chunkId f) [i..<min (i + CHUNK_BATCH_SIZE) (length docs)]"
proof -
  have "map (\<lambda>idx. chunkId f (i + idx)) [0..<m]
          = map (chunkId f) (map (\<lambda>k. k + i) [0..<m])" for m
    by (simp add: add.commute)
  then have "map (\<lambda>idx. chunkId f (i + idx)) [0..<m] = map (chunkId f) [i..<i + m]" for m
    by (simp only: map_add_upt add.commute)
  moreover have "[i..<i + min (n - i) c] = [i..<min (i + c) n]" for c n
  proof (cases "i \<le> n")
    case True
    then have "i + min (n - i) c = min (i + c) n" by arith
    then show ?thesis by simp
  next
    case False
    then show ?thesis by simp
  qed
  ultimately show ?thesis
    by (simp add: batchRequest_def slice_def)
qed

lemma upt_split:
  assumes "i \<le> n"
  shows "[i..<min (i + c) n] @ [i + c..<n] = [i..<n]"
proof (cases "i + c \<le> n")
  case True
  then show ?thesis
    using upt_add_eq_append[of i "i + c" "n - (i + c)"] by (simp add: min_def)
next
  case False
  then show ?thesis by (simp add: min_def)
qed

lemma chunkLoop_ids:
  assumes "everyCallSucceeds e"
  shows "concat (map ids (addRequests (snd (chunkLoop e docs f i acc t))))
     = concat (map ids (addRequests t)) @ map (chunkId f) [i..<length docs]"
  using assms
proof (induction e docs f i acc t rule: chunkLoop.induct)
  case (1 e docs f i acc t)
  show ?case
  proof (cases "i < length docs")
    case False
    then show ?thesis by (subst chunkLoop.simps) simp
  next
    case True
    let ?cb = "slice docs i (i + CHUNK_BATCH_SIZE)"
    obtain b t1 where p: "processChunkBatch e ?cb f i t = (b, t1)"
      by (cases "processChunkBatch e ?cb f i t")
    let ?t2 = "if i + CHUNK_BATCH_SIZE < length docs then t1 @ [Sleep 100] else t1"
    have eq: "chunkLoop e docs f i acc t
        = chunkLoop e docs f (i + CHUNK_BATCH_SIZE) (addNumbers acc b) ?t2"
      using True p by (subst chunkLoop.simps) (simp add: Let_def)
    have ih: "concat (map ids (addRequests (snd (chunkLoop e docs f (i + CHUNK_BATCH_SIZE)
                 (addNumbers acc b) ?t2))))
          = concat (map ids (addRequests ?t2))
              @ map (chunkId f) [i + CHUNK_BATCH_SIZE..<length docs]"
      using "1.IH"[OF True refl p[symmetric] refl refl "1.prems"] by simp
    obtain embs where r: "addRequests t1 = addRequests t @ [batchRequest e ?cb f i t embs]"
      using processChunkBatch_succeeds[OF "1.prems", of ?cb f i t] p by auto
    have "concat (map ids (addRequests ?t2))
            = concat (map ids (addRequests t))
                @ map (chunkId f) [i..<min (i + CHUNK_BATCH_SIZE) (length docs)]"
      using r by (simp add: addRequests_append batchRequest_ids)
    moreover have "[i..<min (i + CHUNK_BATCH_SIZE) (length docs)]
                     @ [i + CHUNK_BATCH_SIZE..<length docs] = [i..<length docs]"
      using True upt_split[of i "length docs" CHUNK_BATCH_SIZE] by simp
    ultimately show ?thesis
      using ih eq by (simp flip: map_append)
  qed
qed

text \<open>
  Claim C9. Every write request that the chunk loop of \<open>processPDF\<close> sends for a
  document pairs the text of the chunk at position \<open>i + k\<close> with the id
  \<open>fileName_chunk_(i + k)\<close>, whatever the services do. When no call fails, the ids
  written are those of the positions \<open>0\<close> to \<open>length docs - 1\<close>, in order: they depend on
  the file name and the number of chunks only, so a second run over the same document
  writes the same ids.
\<close>

theorem chunk_ids_from_position:
  "(\<forall>req \<in> set (addRequests (snd (chunkLoop e docs fileName 0 acc t))).
       req \<in> set (addRequests t) \<or> entriesOf fileName docs req)
   \<and> (everyCallSucceeds e \<longrightarrow>
        concat (map ids (addRequests (snd (chunkLoop e docs fileName 0 acc t))))
          = concat (map ids (addRequests t))
              @ map (\<lambda>k. fileName @ lit ''_chunk_'' @ numberToString k) [0..<length docs])"
proof -
  have "chunkId fileName = (\<lambda>k. fileName @ lit ''_chunk_'' @ numberToString k)"
    by (rule ext) (simp add: chunkId_def)
  then show ?thesis
    using chunkLoop_requests[of e docs fileName 0 acc t]
      chunkLoop_ids[of e docs fileName 0 acc t]
    by auto
qed

lemma envUp_succeeds: "everyCallSucceeds envUp"
  by (simp add: everyCallSucceeds_def envUp_key) (simp add: envUp_def)

text \<open>The theorem for a document of eleven chunks when every call succeeds.\<close>

theorem chunk_ids_from_position_witness:
  "everyCallSucceeds envUp
   \<and> length (addRequests (snd (chunkLoop envUp elevenChunks (lit ''a.PDF'') 0 (Some 0) []))) = 2
   \<and> concat (map ids (addRequests (snd (chunkLoop envUp elevenChunks (lit ''a.PDF'') 0 (Some 0) []))))
       = map (\<lambda>k. lit ''a.PDF_chunk_'' @ numberToString k) [0..<11]"
proof -
  have l: "length elevenChunks = 11" by (simp add: elevenChunks_def)
  have a: "lit ''a.PDF'' @ lit ''_chunk_'' @ s = lit ''a.PDF_chunk_'' @ s" for s
    by (simp add: lit_def)
  have n: "length (addRequests (snd (chunkLoop envUp elevenChunks (lit ''a.PDF'') 0 (Some 0) []))) = 2"
    by code_simp
  show ?thesis
    using envUp_succeeds l n
      chunk_ids_from_position[of envUp elevenChunks "lit ''a.PDF''" "Some 0" "[]"]
    by (simp add: a)
qed

section \<open>The metadata of the entries\<close>

text \<open>
  Claim C6 fails on the code. \<open>total_chunks\<close> is \<open>docs.length\<close> inside
  \<open>processChunkBatch\<close>, where \<open>docs\<close> is the sub-batch. For a document of eleven chunks,
  all of them written, the ten entries of the first sub-batch carry 10 and the last
  entry carries 1, while \<open>processPDF\<close> itself reports 11 as \<open>totalChunks\<close>.
\<close>

theorem total_chunks_is_batch_size:
  "fst (processPDF envEleven (lit ''pdfs/a.PDF'') (lit ''a.PDF'') [])
     = PdfSuccess (lit ''a.PDF'') (Some 11) 11
   \<and> map (\<lambda>m. map_of m ''total_chunks'')
        (concat (map metadatas (addRequests
           (snd (processPDF envEleven (lit ''pdfs/a.PDF'') (lit ''a.PDF'') [])))))
     = replicate 10 (Some (MNumber 10)) @ [Some (MNumber 1)]"
  by code_simp

text \<open>
  Claim C7 fails on the code. The discovery filter accepts \<open>my_case.pdf\<close>, and the
  title keeps the extension: only the first \<open>.PDF\<close> in capitals is removed.
\<close>

theorem title_keeps_lower_case_extension:
  "isPdfName (lit ''my_case.pdf'')
   \<and> titleOf (lit ''my_case.pdf'') = lit ''my case.pdf''
   \<and> map (\<lambda>m. map_of m ''title'')
        (concat (map metadatas (addRequests
           (snd (processChunkBatch envUp twoChunks (lit ''my_case.pdf'') 0 [])))))
     = [Some (MString (lit ''my case.pdf'')), Some (MString (lit ''my case.pdf''))]"
  by code_simp

section \<open>Answer generation\<close>

lemma tryModels_all_fail:
  assumes "noBackendAnswers e"
  shows "\<exists>err. tryModels e p [a, b, c] t =
           (Inl err, t @ [GeneratePost a p, Sleep 1000, GeneratePost b p, Sleep 1000,
                          GeneratePost c p])"
proof -
  let ?t1 = "t @ [GeneratePost a p]"
  let ?t2 = "?t1 @ [Sleep 1000] @ [GeneratePost b p]"
  let ?t3 = "?t2 @ [Sleep 1000] @ [GeneratePost c p]"
  from assms obtain e1 where e1: "tryModel e ?t1 = Inl e1"
    unfolding noBackendAnswers_def by (metis isl_def)
  from assms obtain e2 where e2: "tryModel e ?t2 = Inl e2"
    unfolding noBackendAnswers_def by (metis isl_def)
  from assms obtain e3 where e3: "tryModel e ?t3 = Inl e3"
    unfolding noBackendAnswers_def by (metis isl_def)
  show ?thesis
    using e1 e2 e3 by (intro exI[of _ e3]) (simp add: Let_def)
qed

lemma generateAnswer_all_fail:
  assumes "\<not> keyMissing e" and "noBackendAnswers e"
  shows "generateAnswer e ctx qu t =
     (Some (generateStructuredFallback ctx qu),
      t @ [GeneratePost (lit ''gemini-1.5-flash-latest'') (buildPrompt ctx qu),
           Sleep 1000,
           GeneratePost (lit ''gemini-1.5-flash'') (buildPrompt ctx qu),
           Sleep 1000,
           GeneratePost (lit ''gemini-pro'') (buildPrompt ctx qu)])"
proof -
  from tryModels_all_fail[OF assms(2)]
  obtain err where "tryModels e (buildPrompt ctx qu) modelEndpoints t =
     (Inl err,
      t @ [GeneratePost (lit ''gemini-1.5-flash-latest'') (buildPrompt ctx qu),
           Sleep 1000,
           GeneratePost (lit ''gemini-1.5-flash'') (buildPrompt ctx qu),
           Sleep 1000,
           GeneratePost (lit ''gemini-pro'') (buildPrompt ctx qu)])"
    unfolding modelEndpoints_def by blast
  then show ?thesis using assms(1) by (simp add: generateAnswer_def)
qed

lemma fallback_nonempty: "generateStructuredFallback ctx qu \<noteq> []"
  by (simp add: generateStructuredFallback_def Let_def lit_def)

lemma fallbacks_differ:
  "credentialFallback ctx qu \<noteq> generateStructuredFallback ctx qu"
  by (simp add: credentialFallback_def generateStructuredFallback_def Let_def lit_def)

lemma envDown_unreachable: "noBackendAnswers envDown"
  by (simp add: noBackendAnswers_def tryModel_def envDown_def)

lemma envSilent_unreachable: "noBackendAnswers envSilent"
  by (simp add: noBackendAnswers_def tryModel_def envSilent_def)

lemma envSilent_key: "\<not> keyMissing envSilent"
  by (simp add: keyMissing_def envSilent_def envUp_def lit_def)

text \<open>
  Claim C8. With the credential configured and no backend giving an answer,
  \<open>generateAnswer\<close> tries the three endpoints once each, a second apart, and returns
  \<open>generateStructuredFallback context question\<close>; the trace ends with the third failed
  post, so the fallback makes no remote call. The fallback is a function of the context
  and the question alone, its result is never empty, and two runs with the same context
  and question give the same answer whatever the environments and the traces so far.
\<close>

theorem structured_fallback_when_unreachable:
  "(\<not> keyMissing e \<and> noBackendAnswers e \<longrightarrow>
      generateAnswer e ctx qu t =
        (Some (generateStructuredFallback ctx qu),
         t @ [GeneratePost (lit ''gemini-1.5-flash-latest'') (buildPrompt ctx qu),
              Sleep 1000,
              GeneratePost (lit ''gemini-1.5-flash'') (buildPrompt ctx qu),
              Sleep 1000,
              GeneratePost (lit ''gemini-pro'') (buildPrompt ctx qu)]))
   \<and> generateStructuredFallback ctx qu \<noteq> []
   \<and> (\<not> keyMissing e \<and> noBackendAnswers e \<and> \<not> keyMissing e' \<and> noBackendAnswers e' \<longrightarrow>
        fst (generateAnswer e ctx qu t) = fst (generateAnswer e' ctx qu t'))"
  using generateAnswer_all_fail[of e ctx qu t]
    generateAnswer_all_fail[of e' ctx qu t'] fallback_nonempty[of ctx qu]
  by simp

text \<open>
  The theorem for a backend that rejects every post and for one that answers without a
  text.
\<close>

theorem structured_fallback_when_unreachable_witness:
  "\<not> keyMissing envDown \<and> noBackendAnswers envDown
   \<and> \<not> keyMissing envSilent \<and> noBackendAnswers envSilent
   \<and> generateAnswer envDown sampleContext sampleQuestion [] =
        (Some (generateStructuredFallback sampleContext sampleQuestion),
         [GeneratePost (lit ''gemini-1.5-flash-latest'') (buildPrompt sampleContext sampleQuestion),
          Sleep 1000,
          GeneratePost (lit ''gemini-1.5-flash'') (buildPrompt sampleContext sampleQuestion),
          Sleep 1000,
          GeneratePost (lit ''gemini-pro'') (buildPrompt sampleContext sampleQuestion)])
   \<and> fst (generateAnswer envDown sampleContext sampleQuestion [])
       = fst (generateAnswer envSilent sampleContext sampleQuestion [Sleep 5])"
  using envDown_key envDown_unreachable envSilent_key envSilent_unreachable
    structured_fallback_when_unreachable[of envDown sampleContext sampleQuestion "[]"
      envSilent "[Sleep 5]"]
  by auto

text \<open>
  Claim C3, as the code has it. Without a usable credential \<open>generateAnswer\<close> makes no
  call and returns its own short text around the whole context. That text is not the
  structured fallback, for any context and question: the two differ from their 29th
  character on.
\<close>

theorem missing_credential_fallback:
  "(keyMissing e \<longrightarrow>
      generateAnswer e ctx qu t = (Some (credentialFallback ctx qu), t))
   \<and> credentialFallback ctx qu \<noteq> generateStructuredFallback ctx qu"
  using fallbacks_differ[of ctx qu] by (simp add: generateAnswer_def)

theorem missing_credential_fallback_witness:
  "keyMissing envNoKey
   \<and> generateAnswer envNoKey sampleContext sampleQuestion []
       = (Some (credentialFallback sampleContext sampleQuestion), [])"
  using envNoKey_key missing_credential_fallback[of envNoKey sampleContext sampleQuestion "[]"]
  by simp

text \<open>
  Against claim C3 as written: for the same context and question, the answer without a
  credential is not the answer given when every backend fails.
\<close>

theorem missing_credential_answer_differs:
  "fst (generateAnswer envNoKey sampleContext sampleQuestion [])
     \<noteq> fst (generateAnswer envDown sampleContext sampleQuestion [])"
  by code_simp

section \<open>The query handler\<close>

text \<open>
  Claim C4. A question that is a string of fewer than 3 characters after trimming is
  answered with status 400 and \<open>success: false\<close>, and the trace is left as it was: no
  embedding call and no query of the index.
\<close>

theorem short_question_rejected:
  "getQuestion body = Inr (JString q) \<and> length (trim q) < 3 \<longrightarrow>
     queryHandler e body t = (validationFailure, t)
   \<and> httpStatus (fst (queryHandler e body t)) = 400
   \<and> \<not> success (fst (queryHandler e body t))
   \<and> filter isRemoteCall (snd (queryHandler e body t)) = filter isRemoteCall t"
  by (simp add: queryHandler_def questionRejected_def validationFailure_def)

theorem short_question_rejected_witness:
  "getQuestion (questionBody (lit '' a  '')) = Inr (JString (lit '' a  ''))
   \<and> length (trim (lit '' a  '')) < 3
   \<and> queryHandler envUp (questionBody (lit '' a  '')) [] = (validationFailure, [])"
proof -
  have a: "getQuestion (questionBody (lit '' a  '')) = Inr (JString (lit '' a  ''))"
    by (simp add: getQuestion_def questionBody_def)
  have b: "length (trim (lit '' a  '')) < 3"
    by (simp add: trim_def lit_def isWhiteSpace_def)
  show ?thesis
    using a b short_question_rejected[of "questionBody (lit '' a  '')" "lit '' a  ''" envUp "[]"]
    by simp
qed

text \<open>
  Claim C10, as the code has it. For a request body that is there (not \<open>undefined\<close> or
  \<open>null\<close>) and whose \<open>question\<close> is absent, \<open>null\<close> or of any type but string, the
  handler gives the response it gives for the too short string \<open>ab\<close>: status 400,
  \<open>success: false\<close>, the same message, nothing thrown and no remote call.
\<close>

theorem non_string_question_rejected:
  "body \<noteq> JUndefined \<and> body \<noteq> JNull \<and> (\<forall>s. getQuestion body \<noteq> Inr (JString s)) \<longrightarrow>
     queryHandler e body t = (validationFailure, t)
   \<and> queryHandler e body t = queryHandler e (questionBody (lit ''ab'')) t
   \<and> httpStatus (fst (queryHandler e body t)) = 400
   \<and> \<not> success (fst (queryHandler e body t))
   \<and> filter isRemoteCall (snd (queryHandler e body t)) = filter isRemoteCall t"
proof (intro impI, elim conjE)
  assume b: "body \<noteq> JUndefined" "body \<noteq> JNull" and q: "\<forall>s. getQuestion body \<noteq> Inr (JString s)"
  from b obtain v where v: "getQuestion body = Inr v"
    by (cases body) (simp_all add: getQuestion_def)
  with q have "\<forall>s. v \<noteq> JString s" by simp
  then have "questionRejected v"
    by (cases v) (simp_all add: questionRejected_def)
  then have r: "queryHandler e body t = (validationFailure, t)"
    using v by (simp add: queryHandler_def)
  have "length (trim (lit ''ab'')) < 3"
    by (simp add: trim_def lit_def isWhiteSpace_def)
  then have "queryHandler e (questionBody (lit ''ab'')) t = (validationFailure, t)"
    by (simp add: queryHandler_def questionRejected_def questionBody_def getQuestion_def)
  with r show "queryHandler e body t = (validationFailure, t)
   \<and> queryHandler e body t = queryHandler e (questionBody (lit ''ab'')) t
   \<and> httpStatus (fst (queryHandler e body t)) = 400
   \<and> \<not> success (fst (queryHandler e body t))
   \<and> filter isRemoteCall (snd (queryHandler e body t)) = filter isRemoteCall t"
    by (simp add: validationFailure_def)
qed

text \<open>
  Bodies with no \<open>question\<close>, with \<open>null\<close>, with a number and with an array for it.
\<close>

theorem non_string_question_rejected_witness:
  "queryHandler envUp (JObject []) [] = (validationFailure, [])
   \<and> queryHandler envUp (JObject [(lit ''question'', JNull)]) [] = (validationFailure, [])
   \<and> queryHandler envUp (JObject [(lit ''question'', JNumber 42)]) [] = (validationFailure, [])
   \<and> queryHandler envUp (JObject [(lit ''question'', JArray [JString (lit ''What is a tort?'')])]) []
       = (validationFailure, [])"
proof -
  have a: "\<forall>s. getQuestion (JObject []) \<noteq> Inr (JString s)"
    by (simp add: getQuestion_def)
  have b: "\<forall>s. getQuestion (JObject [(lit ''question'', JNull)]) \<noteq> Inr (JString s)"
    by (simp add: getQuestion_def)
  have c: "\<forall>s. getQuestion (JObject [(lit ''question'', JNumber 42)]) \<noteq> Inr (JString s)"
    by (simp add: getQuestion_def)
  have d: "\<forall>s. getQuestion (JObject [(lit ''question'', JArray [JString (lit ''What is a tort?'')])])
             \<noteq> Inr (JString s)"
    by (simp add: getQuestion_def)
  show ?thesis
    using a b c d
      non_string_question_rejected[of "JObject []" envUp "[]"]
      non_string_question_rejected[of "JObject [(lit ''question'', JNull)]" envUp "[]"]
      non_string_question_rejected[of "JObject [(lit ''question'', JNumber 42)]" envUp "[]"]
      non_string_question_rejected[of "JObject [(lit ''question'', JArray [JString (lit ''What is a tort?'')])]" envUp "[]"]
    by simp
qed

text \<open>
  Against claim C10 as written: when the request has no body at all, the question is
  absent too, but \<open>const { question } = req.body\<close> throws, and the \<open>catch\<close> of the
  handler answers with status 500, not with the validation response.
\<close>

theorem absent_body_throws:
  "queryHandler envUp JUndefined [] = (serverFailure, [])
   \<and> httpStatus (fst (queryHandler envUp JUndefined [])) = 500
   \<and> fst (queryHandler envUp JUndefined []) \<noteq> validationFailure"
  by (simp add: queryHandler_def getQuestion_def serverFailure_def validationFailure_def)

lemma goodMatchesOf_zip:
  assumes "length distances = length docs"
  shows "goodMatchesOf docs distances
           = map fst (filter (\<lambda>(doc, d). d < 1.5) (zip docs distances))"
proof -
  have z: "zip docs distances = map (\<lambda>x. (fst x, distances ! snd x)) (zip docs [0..<length docs])"
    using assms by (intro nth_equalityI) simp_all
  have "filter (\<lambda>x. snd x < length distances \<and> distances ! snd x < 1.5)
          (zip docs [0..<length docs])
        = filter (\<lambda>x. distances ! snd x < 1.5) (zip docs [0..<length docs])"
    using assms by (intro filter_cong) (auto dest: set_zip_rightD)
  then show ?thesis
    unfolding goodMatchesOf_def z by (simp add: filter_map comp_def case_prod_unfold)
qed

lemma goodMatchesOf_example:
  "goodMatchesOf [a, b, c, d] [0.2, 0.8, 1.6, 2.0] = [a, b]"
  by (simp add: goodMatchesOf_def upt_rec)

lemma queryHandler_no_match:
  assumes "getQuestion body = Inr (JString q)" and "\<not> questionRejected (JString q)"
    and "generateEmbeddingServer e q t = (Inr emb, t1)"
    and "collection_query e (t1 @ [CollectionQuery emb]) = Inr results"
    and "documents0 results = Some found"
  shows "found \<noteq> [] \<and> goodMatchesOf found (distances0 results) = [] \<longrightarrow>
           queryHandler e body t
             = (JsonAnswer (Some notRelatedAnswer) 0, t1 @ [CollectionQuery emb])"
    and "found = [] \<longrightarrow>
           queryHandler e body t
             = (JsonAnswer (Some noDocumentsAnswer) 0, t1 @ [CollectionQuery emb])"
  using assms by (simp_all add: queryHandler_def Let_def)

text \<open>
  Claim C5, as the code has it. The filter keeps the documents whose distance is below
  1.5, and of the distances 0.2, 0.8, 1.6, 2.0 the first two. Once the question is
  accepted, embedded and the index has answered: if documents came back and none passes
  the filter, the response is the successful one with the "not closely related" answer
  and \<open>matches = 0\<close>; if no document came back at all, it is the successful one with
  the "couldn't find any relevant documents" answer and \<open>matches = 0\<close>.
\<close>

theorem distance_filter:
  "(length distances = length docs \<longrightarrow>
      goodMatchesOf docs distances
        = map fst (filter (\<lambda>(doc, d). d < 1.5) (zip docs distances)))
   \<and> goodMatchesOf [a, b, c, d] [0.2, 0.8, 1.6, 2.0] = [a, b]
   \<and> (getQuestion body = Inr (JString q) \<and> \<not> questionRejected (JString q)
        \<and> generateEmbeddingServer e q t = (Inr emb, t1)
        \<and> collection_query e (t1 @ [CollectionQuery emb]) = Inr results
        \<and> documents0 results = Some found \<longrightarrow>
        (found \<noteq> [] \<and> goodMatchesOf found (distances0 results) = [] \<longrightarrow>
           queryHandler e body t
             = (JsonAnswer (Some notRelatedAnswer) 0, t1 @ [CollectionQuery emb])
           \<and> success (fst (queryHandler e body t))
           \<and> httpStatus (fst (queryHandler e body t)) = 200)
      \<and> (found = [] \<longrightarrow>
           queryHandler e body t
             = (JsonAnswer (Some noDocumentsAnswer) 0, t1 @ [CollectionQuery emb])
           \<and> success (fst (queryHandler e body t))
           \<and> httpStatus (fst (queryHandler e body t)) = 200))"
  using goodMatchesOf_zip[of distances docs] goodMatchesOf_example[of a b c d]
    queryHandler_no_match[of body q e t emb t1 results found]
  by simp

text \<open>
  The theorem for an index whose two entries are at distances 1.5 and 1.7, and the
  filter on the four sample results.
\<close>

theorem distance_filter_witness:
  "getQuestion (questionBody sampleQuestion) = Inr (JString sampleQuestion)
   \<and> \<not> questionRejected (JString sampleQuestion)
   \<and> generateEmbeddingServer envFar sampleQuestion []
       = (Inr (Some [1 / 2, 1 / 4]), [EmbedPost sampleQuestion])
   \<and> collection_query envFar [EmbedPost sampleQuestion, CollectionQuery (Some [1 / 2, 1 / 4])]
       = Inr farResults
   \<and> documents0 farResults = Some [lit ''alpha'', lit ''beta'']
   \<and> goodMatchesOf [lit ''alpha'', lit ''beta''] (distances0 farResults) = []
   \<and> queryHandler envFar (questionBody sampleQuestion) []
       = (JsonAnswer (Some notRelatedAnswer) 0,
          [EmbedPost sampleQuestion, CollectionQuery (Some [1 / 2, 1 / 4])])
   \<and> generateEmbeddingServer envEmptyIndex sampleQuestion []
       = (Inr (Some [1 / 2, 1 / 4]), [EmbedPost sampleQuestion])
   \<and> collection_query envEmptyIndex
         [EmbedPost sampleQuestion, CollectionQuery (Some [1 / 2, 1 / 4])]
       = Inr emptyResults
   \<and> documents0 emptyResults = Some []
   \<and> queryHandler envEmptyIndex (questionBody sampleQuestion) []
       = (JsonAnswer (Some noDocumentsAnswer) 0,
          [EmbedPost sampleQuestion, CollectionQuery (Some [1 / 2, 1 / 4])])
   \<and> length (distances0 sampleResults) = length (the (documents0 sampleResults))
   \<and> goodMatchesOf (the (documents0 sampleResults)) (distances0 sampleResults)
       = [lit ''alpha'', lit ''beta'']"
proof -
  have a: "getQuestion (questionBody sampleQuestion) = Inr (JString sampleQuestion)"
    by (simp add: getQuestion_def questionBody_def)
  have b: "\<not> questionRejected (JString sampleQuestion)"
    by code_simp
  have c: "generateEmbeddingServer envFar sampleQuestion []
       = (Inr (Some [1 / 2, 1 / 4]), [EmbedPost sampleQuestion])"
    by (simp add: generateEmbeddingServer_def embedTry_def envFar_def envUp_def
          keyMissing_def lit_def)
  have d: "collection_query envFar
             ([EmbedPost sampleQuestion] @ [CollectionQuery (Some [1 / 2, 1 / 4])])
       = Inr farResults"
    by (simp add: envFar_def envUp_def)
  have f: "documents0 farResults = Some [lit ''alpha'', lit ''beta'']"
    by (simp add: farResults_def)
  have g: "goodMatchesOf [lit ''alpha'', lit ''beta''] (distances0 farResults) = []"
    by (simp add: farResults_def goodMatchesOf_def upt_rec)
  have h: "length (distances0 sampleResults) = length (the (documents0 sampleResults))"
    by (simp add: sampleResults_def)
  have i: "map fst (filter (\<lambda>(doc, d). d < 1.5)
             (zip (the (documents0 sampleResults)) (distances0 sampleResults)))
       = [lit ''alpha'', lit ''beta'']"
    by (simp add: sampleResults_def)
  have c': "generateEmbeddingServer envEmptyIndex sampleQuestion []
       = (Inr (Some [1 / 2, 1 / 4]), [EmbedPost sampleQuestion])"
    by (simp add: generateEmbeddingServer_def embedTry_def envEmptyIndex_def envUp_def
          keyMissing_def lit_def)
  have d': "collection_query envEmptyIndex
             ([EmbedPost sampleQuestion] @ [CollectionQuery (Some [1 / 2, 1 / 4])])
       = Inr emptyResults"
    by (simp add: envEmptyIndex_def envUp_def)
  have f': "documents0 emptyResults = Some []"
    by (simp add: emptyResults_def)
  show ?thesis
    using a b c d f g h i c' d' f'
      distance_filter[of "distances0 sampleResults" "the (documents0 sampleResults)"
        a b c d "questionBody sampleQuestion" sampleQuestion envFar "[]"
        "Some [1 / 2, 1 / 4]" "[EmbedPost sampleQuestion]" farResults
        "[lit ''alpha'', lit ''beta'']"]
      distance_filter[of "distances0 sampleResults" "the (documents0 sampleResults)"
        a b c d "questionBody sampleQuestion" sampleQuestion envEmptyIndex "[]"
        "Some [1 / 2, 1 / 4]" "[EmbedPost sampleQuestion]" emptyResults "[]"]
    by simp
qed

text \<open>
  Against claim C5 as written: with an index that returns no document, no match passes
  the filter, and the answer is not the "not closely related" one.
\<close>

theorem no_documents_answer:
  "goodMatchesOf [] [] = []
   \<and> fst (queryHandler envEmptyIndex (questionBody sampleQuestion) [])
       = JsonAnswer (Some noDocumentsAnswer) 0
   \<and> JsonAnswer (Some noDocumentsAnswer) 0 \<noteq> JsonAnswer (Some notRelatedAnswer) 0"
  by code_simp

end
